theory Spec2Isabelle
  imports Main
begin

section \<open>Shared helpers\<close>

text \<open>
  JavaScript renders an integer-valued number inside a template literal in decimal, with a
  leading minus sign for negative values. All numbers of this program (file counts, line
  counts, thresholds, pull-request numbers, HTTP statuses) are integer-valued, so they are
  modelled as \<open>int\<close>. (From \<open>10^21\<close> on JavaScript switches to exponent notation; counts
  of files and lines stay far below.)
\<close>

fun digits :: "nat \<Rightarrow> string" where
  "digits n =
     (if n < 10 then [''0123456789'' ! n]
      else digits (n div 10) @ [''0123456789'' ! (n mod 10)])"

definition numberToString :: "int \<Rightarrow> string" where
  "numberToString i = (if i < 0 then ''-'' @ digits (nat (- i)) else digits (nat i))"

text \<open>A thrown value: an \<open>Error\<close> with its message.\<close>

datatype error = Error string

section \<open>File-change classifier (api/lib/automerge.ts)\<close>

text \<open>
  \<open>minimatch(filename, pattern, { dot: true })\<close> comes from an external package. Every
  function below takes it as the parameter \<open>mm\<close>, applied to the file name and the
  pattern.
\<close>

type_synonym matcher = "string \<Rightarrow> string \<Rightarrow> bool"

text \<open>
  On a pattern without glob metacharacters minimatch compares the two strings; this
  matcher is used for concrete inputs.
\<close>

definition literal_match :: matcher where
  "literal_match f p = (f = p)"

record PRFile =
  filename :: string
  additions :: int
  deletions :: int
  changes :: int
  status :: string
  previous_filename :: "string option"

record AutomergeConfig =
  dryRun :: bool
  allowedPaths :: "string list"
  denyPaths :: "string list"
  maxFiles :: int
  maxChangedLines :: int
  minApprovals :: int
  requireChecks :: bool

record ClassifyResult =
  eligible :: bool
  reason :: string

text \<open>One \<open>for (const pattern of ...)\<close> loop that leaves at the first matching pattern.\<close>

fun matchesAny :: "matcher \<Rightarrow> string \<Rightarrow> string list \<Rightarrow> bool" where
  "matchesAny mm f [] = False"
| "matchesAny mm f (pattern # rest) = (if mm f pattern then True else matchesAny mm f rest)"

definition isFileAllowed :: "matcher \<Rightarrow> string \<Rightarrow> string list \<Rightarrow> string list \<Rightarrow> bool" where
  "isFileAllowed mm f allowed deny =
     (if matchesAny mm f deny then False
      else if matchesAny mm f allowed then True
      else False)"

text \<open>The accumulation \<open>totalChangedLines += file.additions + file.deletions\<close>.\<close>

fun totalChangedLines :: "PRFile list \<Rightarrow> int \<Rightarrow> int" where
  "totalChangedLines [] acc = acc"
| "totalChangedLines (file # rest) acc =
     totalChangedLines rest (acc + (additions file + deletions file))"

text \<open>
  The path-rule loop. \<open>file.previous_filename && ...\<close> is a truthiness test: the previous
  name is looked at only when the property is there and is not the empty string.
\<close>

fun checkPaths :: "matcher \<Rightarrow> AutomergeConfig \<Rightarrow> PRFile list \<Rightarrow> ClassifyResult" where
  "checkPaths mm config [] = \<lparr>eligible = True, reason = ''all file checks passed''\<rparr>"
| "checkPaths mm config (file # rest) =
     (if \<not> isFileAllowed mm (filename file) (allowedPaths config) (denyPaths config)
      then \<lparr>eligible = False, reason = ''file not allowed: '' @ filename file\<rparr>
      else (case previous_filename file of
              None \<Rightarrow> checkPaths mm config rest
            | Some prev \<Rightarrow>
                if prev \<noteq> [] \<and> \<not> isFileAllowed mm prev (allowedPaths config) (denyPaths config)
                then \<lparr>eligible = False,
                      reason = ''file not allowed: '' @ prev @ '' (renamed to '' @ filename file @ '')''\<rparr>
                else checkPaths mm config rest))"

definition classifyFiles :: "matcher \<Rightarrow> PRFile list \<Rightarrow> AutomergeConfig \<Rightarrow> ClassifyResult" where
  "classifyFiles mm files config =
     (if length files = 0 then \<lparr>eligible = False, reason = ''no files changed''\<rparr>
      else if int (length files) > maxFiles config
      then \<lparr>eligible = False,
            reason = ''too many files: '' @ numberToString (int (length files)) @ '' > ''
                     @ numberToString (maxFiles config)\<rparr>
      else let total = totalChangedLines files 0 in
        if total > maxChangedLines config
        then \<lparr>eligible = False,
              reason = ''too many changed lines: '' @ numberToString total @ '' > ''
                       @ numberToString (maxChangedLines config)\<rparr>
        else checkPaths mm config files)"

text \<open>
  The path-rule conditions as the specification words them, for comparison with the loop:
  a file violates the path rules when its name is not allowed, or when it carries a
  non-empty previous name that is not allowed.
\<close>

definition renamedFrom :: "PRFile \<Rightarrow> string \<Rightarrow> bool" where
  "renamedFrom file prev = (previous_filename file = Some prev \<and> prev \<noteq> [])"

definition violatesPathRules :: "matcher \<Rightarrow> AutomergeConfig \<Rightarrow> PRFile \<Rightarrow> bool" where
  "violatesPathRules mm config file =
     (\<not> isFileAllowed mm (filename file) (allowedPaths config) (denyPaths config)
      \<or> (\<exists>prev. renamedFrom file prev
            \<and> \<not> isFileAllowed mm prev (allowedPaths config) (denyPaths config)))"

definition pathViolationReason :: "matcher \<Rightarrow> AutomergeConfig \<Rightarrow> PRFile \<Rightarrow> string" where
  "pathViolationReason mm config file =
     (if \<not> isFileAllowed mm (filename file) (allowedPaths config) (denyPaths config)
      then ''file not allowed: '' @ filename file
      else ''file not allowed: '' @ the (previous_filename file)
           @ '' (renamed to '' @ filename file @ '')'')"

section \<open>Transient-error classifier (api/lib/transient-error.ts)\<close>

text \<open>
  The argument has type \<open>unknown\<close>: any JavaScript value. An object is modelled by its
  properties, in order, each with what reading it does: a data property (or an accessor
  that returns) yields its value, an accessor whose getter throws yields the error thrown.
  Functions and symbols do not occur as errors.
\<close>

datatype 'v property =
    Value 'v
  | Throws error

datatype jsval =
    JUndefined
  | JNull
  | JBool bool
  | JNum int
  | JStr string
  | JObj "(string \<times> jsval property) list"

definition TRANSIENT_NETWORK_CODES :: "string set" where
  "TRANSIENT_NETWORK_CODES =
     {''ECONNRESET'', ''ETIMEDOUT'', ''ECONNREFUSED'', ''ENOTFOUND'', ''EAI_AGAIN'', ''EPIPE''}"

text \<open>
  Modelled from the spec: \<open>getErrorStatus\<close> lives in github-client.ts, which is not
  among the sources. The specification speaks of the HTTP status an error carries; the
  helper reads the \<open>status\<close> property of an object and returns it when it is a number,
  and null for anything else. A read that throws makes the helper throw.
\<close>

fun getErrorStatus :: "jsval \<Rightarrow> error + int option" where
  "getErrorStatus (JObj props) =
     (case map_of props ''status'' of
        None \<Rightarrow> Inr None
      | Some (Throws e) \<Rightarrow> Inl e
      | Some (Value v) \<Rightarrow> (case v of JNum n \<Rightarrow> Inr (Some n) | _ \<Rightarrow> Inr None))"
| "getErrorStatus _ = Inr None"

text \<open>
  \<open>typeof error === "object" && error !== null && "code" in error\<close>: the property
  \<open>code\<close> of an object that has one.
\<close>

fun codeProperty :: "jsval \<Rightarrow> jsval property option" where
  "codeProperty (JObj props) = map_of props ''code''"
| "codeProperty _ = None"

text \<open>The last two lines of \<open>isTransientError\<close>: the status test.\<close>

definition statusIsTransient :: "jsval \<Rightarrow> error + bool" where
  "statusIsTransient error =
     (case getErrorStatus error of
        Inl e \<Rightarrow> Inl e
      | Inr None \<Rightarrow> Inr False
      | Inr (Some st) \<Rightarrow> Inr (st = 429 \<or> st \<ge> 500))"

text \<open>
  \<open>const code = (error as { code: unknown }).code\<close> is a plain property read, outside any
  \<open>try\<close>: when the getter of \<open>code\<close> throws, so does the function.
\<close>

definition isTransientError :: "jsval \<Rightarrow> error + bool" where
  "isTransientError error =
     (case codeProperty error of
        None \<Rightarrow> statusIsTransient error
      | Some (Throws e) \<Rightarrow> Inl e
      | Some (Value code) \<Rightarrow>
          if (case code of JStr c \<Rightarrow> c \<in> TRANSIENT_NETWORK_CODES | _ \<Rightarrow> False)
          then Inr True
          else statusIsTransient error)"

text \<open>Reading the property \<open>key\<close> of the value throws.\<close>

definition throwingRead :: "jsval \<Rightarrow> string \<Rightarrow> bool" where
  "throwingRead v key =
     (case v of
        JObj props \<Rightarrow> (case map_of props key of Some (Throws e) \<Rightarrow> True | _ \<Rightarrow> False)
      | _ \<Rightarrow> False)"

section \<open>Label evaluator (api/lib/automerge.ts)\<close>

record PRRef =
  owner :: string
  repo :: string
  prNumber :: int

datatype AutomergeResult =
    Skipped string
  | Labeled
  | Unlabeled string
  | Noop bool

subsection \<open>The remote system behind \<open>PROperations\<close>\<close>

text \<open>
  \<open>evaluateAutomerge\<close> receives its collaborator \<open>prs\<close> as an argument and only calls
  its methods. Each method call is an event; the remote keeps the data the calls read and
  write, the calls that throw (with the message of the error thrown), the calls made so far,
  and the lines given to the logger.
\<close>

datatype call =
    GetLabels PRRef
  | ListFiles PRRef int
  | GetApproverLogins PRRef
  | Get PRRef
  | GetCheckRunsForRef string string string
  | GetCombinedStatus string string string
  | AddLabels PRRef "string list"
  | RemoveLabel PRRef string

record CheckRun =
  run_status :: string
  conclusion :: "string option"

record CombinedStatus =
  state :: string
  totalCount :: int

record remote =
  pr_labels :: "PRRef \<Rightarrow> string list"
  pr_files :: "PRRef \<Rightarrow> PRFile list"
  pr_approvers :: "PRRef \<Rightarrow> string set"
  pr_headSha :: "PRRef \<Rightarrow> string"
  check_runs :: "string \<Rightarrow> string \<Rightarrow> string \<Rightarrow> CheckRun list"
  combined_status :: "string \<Rightarrow> string \<Rightarrow> string \<Rightarrow> CombinedStatus"
  faults :: "call \<Rightarrow> string option"
  call_log :: "call list"
  log_lines :: "string list"

text \<open>An asynchronous computation: it runs on the remote and either throws or returns.\<close>

type_synonym 'a io = "remote \<Rightarrow> (error + 'a) \<times> remote"

definition io_return :: "'a \<Rightarrow> 'a io" where
  "io_return x = (\<lambda>w. (Inr x, w))"

definition io_bind :: "'a io \<Rightarrow> ('a \<Rightarrow> 'b io) \<Rightarrow> 'b io" where
  "io_bind m f = (\<lambda>w. case m w of (Inl e, w') \<Rightarrow> (Inl e, w') | (Inr x, w') \<Rightarrow> f x w')"

text \<open>
  Modelled from the spec: the methods of \<open>PROperations\<close> (pr-operations.ts is not among
  the sources), after the contracts of the external interfaces. A call is recorded, then it
  throws if the remote makes it fail; otherwise a read returns the data held and a label
  mutation changes the labels of the pull request.
\<close>

definition perform :: "call \<Rightarrow> (remote \<Rightarrow> 'a) \<Rightarrow> (remote \<Rightarrow> remote) \<Rightarrow> 'a io" where
  "perform c rd upd =
     (\<lambda>w. let w' = w\<lparr>call_log := call_log w @ [c]\<rparr> in
        case faults w c of
          Some msg \<Rightarrow> (Inl (Error msg), w')
        | None \<Rightarrow> (Inr (rd w), upd w'))"

definition getLabels :: "PRRef \<Rightarrow> string list io" where
  "getLabels r = perform (GetLabels r) (\<lambda>w. pr_labels w r) id"

definition listFiles :: "PRRef \<Rightarrow> int \<Rightarrow> PRFile list io" where
  "listFiles r earlyExitThreshold =
     perform (ListFiles r earlyExitThreshold) (\<lambda>w. pr_files w r) id"

definition getApproverLogins :: "PRRef \<Rightarrow> string set io" where
  "getApproverLogins r = perform (GetApproverLogins r) (\<lambda>w. pr_approvers w r) id"

definition get :: "PRRef \<Rightarrow> string io" where
  "get r = perform (Get r) (\<lambda>w. pr_headSha w r) id"

definition getCheckRunsForRef :: "string \<Rightarrow> string \<Rightarrow> string \<Rightarrow> CheckRun list io" where
  "getCheckRunsForRef ow rp sha =
     perform (GetCheckRunsForRef ow rp sha) (\<lambda>w. check_runs w ow rp sha) id"

definition getCombinedStatus :: "string \<Rightarrow> string \<Rightarrow> string \<Rightarrow> CombinedStatus io" where
  "getCombinedStatus ow rp sha =
     perform (GetCombinedStatus ow rp sha) (\<lambda>w. combined_status w ow rp sha) id"

definition addLabels :: "PRRef \<Rightarrow> string list \<Rightarrow> unit io" where
  "addLabels r names =
     perform (AddLabels r names) (\<lambda>w. ())
       (\<lambda>w. w\<lparr>pr_labels := (pr_labels w)
                  (r := pr_labels w r @ filter (\<lambda>l. l \<notin> set (pr_labels w r)) names)\<rparr>)"

definition removeLabel :: "PRRef \<Rightarrow> string \<Rightarrow> unit io" where
  "removeLabel r name =
     perform (RemoveLabel r name) (\<lambda>w. ())
       (\<lambda>w. w\<lparr>pr_labels := (pr_labels w)(r := removeAll name (pr_labels w r))\<rparr>)"

text \<open>
  Modelled from the spec: \<open>isCIPassing\<close> lives in merge-readiness.ts, which is not among
  the sources. The CI-signal aggregator reads the check runs and the combined status of one
  commit; it passes when every check run present is completed with a successful conclusion
  and the combined status, if present, is not a failing or error state. No checks at all
  pass. A failing read throws.
\<close>

definition checksPass :: "CheckRun list \<Rightarrow> CombinedStatus \<Rightarrow> bool" where
  "checksPass runs combined =
     (list_all (\<lambda>c. run_status c = ''completed'' \<and> conclusion c = Some ''success'') runs
      \<and> \<not> (totalCount combined > 0 \<and> (state combined = ''failure'' \<or> state combined = ''error'')))"

definition isCIPassing :: "PRRef \<Rightarrow> string \<Rightarrow> bool io" where
  "isCIPassing r sha =
     io_bind (getCheckRunsForRef (owner r) (repo r) sha) (\<lambda>runs.
     io_bind (getCombinedStatus (owner r) (repo r) sha) (\<lambda>combined.
     io_return (checksPass runs combined)))"

subsection \<open>\<open>evaluateAutomerge\<close>\<close>

text \<open>
  \<open>LABELS.AUTOMERGE\<close> and \<open>isLabelMatch\<close> come from config.ts, which is not among the
  sources. The header of automerge.ts names the label; the matching helper is the
  parameter \<open>isLabelMatch\<close> of the evaluator.
\<close>

definition LABELS_AUTOMERGE :: string where
  "LABELS_AUTOMERGE = ''hivemoot:automerge''"

type_synonym label_matcher = "string \<Rightarrow> string \<Rightarrow> bool"

text \<open>The argument object of \<open>evaluateAutomerge\<close>, without \<open>prs\<close>; \<open>log\<close> tells whether a logger was given.\<close>

record AutomergeParams =
  ref :: PRRef
  config :: "AutomergeConfig option"
  trustedReviewers :: "string list"
  headSha :: "string option"
  currentLabels :: "string list option"
  log :: bool

definition logInfo :: "AutomergeParams \<Rightarrow> string \<Rightarrow> unit io" where
  "logInfo params msg =
     (\<lambda>w. (Inr (), if log params then w\<lparr>log_lines := log_lines w @ [msg]\<rparr> else w))"

text \<open>\<open>trustedReviewers.filter(r => approvers.has(r)).length\<close>\<close>

definition trustedApprovalCount :: "string list \<Rightarrow> string set \<Rightarrow> nat" where
  "trustedApprovalCount trusted approvers = length (filter (\<lambda>r. r \<in> approvers) trusted)"

definition removeIfLabeled :: "AutomergeParams \<Rightarrow> bool \<Rightarrow> string \<Rightarrow> AutomergeResult io" where
  "removeIfLabeled params hasAutomerge why =
     (if hasAutomerge
      then io_bind (removeLabel (ref params) LABELS_AUTOMERGE) (\<lambda>_.
           io_bind (logInfo params (''[PR #'' @ numberToString (prNumber (ref params))
                                    @ ''] Removed automerge: '' @ why)) (\<lambda>_.
           io_return (Unlabeled why)))
      else io_return (Noop False))"

text \<open>The last step: \<open>if (!hasAutomerge) { addLabels ... }\<close>.\<close>

definition addIfMissing :: "AutomergeParams \<Rightarrow> bool \<Rightarrow> AutomergeResult io" where
  "addIfMissing params hasAutomerge =
     (if \<not> hasAutomerge
      then io_bind (addLabels (ref params) [LABELS_AUTOMERGE]) (\<lambda>_.
           io_bind (logInfo params (''[PR #'' @ numberToString (prNumber (ref params))
                                    @ ''] Added automerge label'')) (\<lambda>_.
           io_return Labeled))
      else io_return (Noop True))"

text \<open>
  \<open>let headSha = params.headSha; if (!headSha) { ... prs.get(ref) ... }\<close>: an empty
  string is falsy, as a missing one is.
\<close>

definition resolveHeadSha :: "AutomergeParams \<Rightarrow> string io" where
  "resolveHeadSha params =
     (case headSha params of
        None \<Rightarrow> get (ref params)
      | Some sha \<Rightarrow> if sha = [] then get (ref params) else io_return sha)"

definition evaluateAutomerge ::
    "matcher \<Rightarrow> label_matcher \<Rightarrow> AutomergeParams \<Rightarrow> AutomergeResult io" where
  "evaluateAutomerge mm isLabelMatch params =
     (case config params of
        None \<Rightarrow> io_return (Skipped ''feature disabled'')
      | Some cfg \<Rightarrow>
          io_bind (case currentLabels params of
                     Some given \<Rightarrow> io_return given
                   | None \<Rightarrow> getLabels (ref params)) (\<lambda>labels.
          let hasAutomerge = list_ex (\<lambda>l. isLabelMatch l LABELS_AUTOMERGE) labels in
          io_bind (listFiles (ref params) (maxFiles cfg)) (\<lambda>files.
          let classification = classifyFiles mm files cfg in
          if \<not> eligible classification
          then removeIfLabeled params hasAutomerge (reason classification)
          else
          io_bind (getApproverLogins (ref params)) (\<lambda>approvers.
          let count = trustedApprovalCount (trustedReviewers params) approvers in
          if int count < minApprovals cfg
          then removeIfLabeled params hasAutomerge
                 (''insufficient approvals: '' @ numberToString (int count) @ ''/''
                  @ numberToString (minApprovals cfg))
          else if requireChecks cfg
          then io_bind (resolveHeadSha params) (\<lambda>sha.
               io_bind (isCIPassing (ref params) sha) (\<lambda>ciPassing.
               if \<not> ciPassing
               then removeIfLabeled params hasAutomerge ''CI not passing''
               else addIfMissing params hasAutomerge))
          else addIfMissing params hasAutomerge))))"

text \<open>The calls an evaluation adds to the record of the remote.\<close>

definition new_calls :: "remote \<Rightarrow> remote \<Rightarrow> call list" where
  "new_calls before after = drop (length (call_log before)) (call_log after)"

fun is_mutation :: "call \<Rightarrow> bool" where
  "is_mutation (AddLabels r names) = True"
| "is_mutation (RemoveLabel r name) = True"
| "is_mutation c = False"

fun is_approval_call :: "call \<Rightarrow> bool" where
  "is_approval_call (GetApproverLogins r) = True"
| "is_approval_call c = False"

fun is_head_or_ci_call :: "call \<Rightarrow> bool" where
  "is_head_or_ci_call (Get r) = True"
| "is_head_or_ci_call (GetCheckRunsForRef ow rp sha) = True"
| "is_head_or_ci_call (GetCombinedStatus ow rp sha) = True"
| "is_head_or_ci_call c = False"

subsection \<open>What one evaluation depends on\<close>

text \<open>
  The labels an evaluation works with are current when they are fetched, or when the
  labels handed in by the caller are the ones the pull request carries.
\<close>

definition labelsCurrent :: "AutomergeParams \<Rightarrow> remote \<Rightarrow> bool" where
  "labelsCurrent params w =
     (case currentLabels params of
        None \<Rightarrow> faults w (GetLabels (ref params)) = None
      | Some given \<Rightarrow> given = pr_labels w (ref params))"

definition headShaUsed :: "AutomergeParams \<Rightarrow> remote \<Rightarrow> string" where
  "headShaUsed params w =
     (case headSha params of
        None \<Rightarrow> pr_headSha w (ref params)
      | Some s \<Rightarrow> if s = [] then pr_headSha w (ref params) else s)"

text \<open>The verdict of the checks on the data the remote holds.\<close>

definition qualifies :: "matcher \<Rightarrow> AutomergeConfig \<Rightarrow> AutomergeParams \<Rightarrow> remote \<Rightarrow> bool" where
  "qualifies mm cfg params w =
     (eligible (classifyFiles mm (pr_files w (ref params)) cfg)
      \<and> \<not> int (trustedApprovalCount (trustedReviewers params) (pr_approvers w (ref params)))
            < minApprovals cfg
      \<and> (\<not> requireChecks cfg
          \<or> checksPass
               (check_runs w (owner (ref params)) (repo (ref params)) (headShaUsed params w))
               (combined_status w (owner (ref params)) (repo (ref params)) (headShaUsed params w))))"

text \<open>None of the reads that the evaluation gets to make after the labels throws.\<close>

definition fetchesSucceed :: "matcher \<Rightarrow> AutomergeConfig \<Rightarrow> AutomergeParams \<Rightarrow> remote \<Rightarrow> bool" where
  "fetchesSucceed mm cfg params w =
     (faults w (ListFiles (ref params) (maxFiles cfg)) = None
      \<and> (\<not> eligible (classifyFiles mm (pr_files w (ref params)) cfg)
          \<or> (faults w (GetApproverLogins (ref params)) = None
              \<and> (int (trustedApprovalCount (trustedReviewers params) (pr_approvers w (ref params)))
                     < minApprovals cfg
                  \<or> \<not> requireChecks cfg
                  \<or> ((headSha params = None \<or> headSha params = Some [])
                        \<longrightarrow> faults w (Get (ref params)) = None)
                     \<and> faults w (GetCheckRunsForRef (owner (ref params)) (repo (ref params))
                                   (headShaUsed params w)) = None
                     \<and> faults w (GetCombinedStatus (owner (ref params)) (repo (ref params))
                                   (headShaUsed params w)) = None))))"

text \<open>
  The default collaborator of the tests (\<open>createMockPROperations\<close>): no labels, no files,
  no approvers, head commit \<open>abc123\<close>, no check runs, a successful combined status with
  no statuses, and no failing call.
\<close>

definition createMockPROperations :: remote where
  "createMockPROperations =
     \<lparr>pr_labels = (\<lambda>r. []), pr_files = (\<lambda>r. []), pr_approvers = (\<lambda>r. {}),
      pr_headSha = (\<lambda>r. ''abc123''),
      check_runs = (\<lambda>ow rp sha. []),
      combined_status = (\<lambda>ow rp sha. \<lparr>state = ''success'', totalCount = 0\<rparr>),
      faults = (\<lambda>c. None), call_log = [], log_lines = []\<rparr>"

definition makeFile :: "string \<Rightarrow> int \<Rightarrow> int \<Rightarrow> PRFile" where
  "makeFile name adds dels =
     \<lparr>filename = name, additions = adds, deletions = dels, changes = adds + dels,
      status = ''modified'', previous_filename = None\<rparr>"

definition baseRef :: PRRef where
  "baseRef = \<lparr>owner = ''org'', repo = ''repo'', prNumber = 42\<rparr>"

text \<open>
  The configuration of the tests (\<open>makeConfig\<close>), with path patterns free of glob
  metacharacters, for use with \<open>literal_match\<close>.
\<close>

definition literalConfig :: AutomergeConfig where
  "literalConfig =
     \<lparr>dryRun = True, allowedPaths = [''README.md'', ''docs/guide.md''],
      denyPaths = [''package.json''], maxFiles = 5, maxChangedLines = 80,
      minApprovals = 2, requireChecks = True\<rparr>"

text \<open>The collaborator of the test that expects the label to be added: one allowed file, two trusted approvals, one successful check run.\<close>

definition readyRemote :: remote where
  "readyRemote =
     createMockPROperations
       \<lparr>pr_files := (pr_files createMockPROperations)(baseRef := [makeFile ''README.md'' 5 0]),
        pr_approvers := (pr_approvers createMockPROperations)(baseRef := {''alice'', ''bob''}),
        check_runs := (check_runs createMockPROperations)
           (''org'' := (check_runs createMockPROperations ''org'')
              (''repo'' := (check_runs createMockPROperations ''org'' ''repo'')
                 (''sha123'' := [\<lparr>run_status = ''completed'', conclusion = Some ''success''\<rparr>])))\<rparr>"

definition testParams :: AutomergeParams where
  "testParams =
     \<lparr>ref = baseRef, config = Some literalConfig, trustedReviewers = [''alice'', ''bob''],
      headSha = Some ''sha123'', currentLabels = None, log = True\<rparr>"

section \<open>Status-event fan-out controller (api/github/webhooks/index.ts)\<close>

text \<open>
  Modelled from the spec: the \<open>status\<close> webhook handler is registered in
  api/github/webhooks/index.ts, which is not among the sources; only its test is. The
  handler is modelled after the six steps the specification gives for the controller, with
  the request parameters and the messages of its test. \<open>evaluateMergeReadiness\<close> is not
  among the sources either: it is the parameter \<open>evaluate\<close>, which tells for a pull
  request and a head commit whether the evaluation throws, and with which error. The
  listing \<open>pulls\<close> is what the remote answers to the request for open pull requests.
\<close>

record Repository =
  owner_login :: string
  name :: string
  full_name :: string

record StatusPayload =
  sha :: string
  repository :: Repository

record PullRequest =
  number :: int
  head_sha :: string

record MergeReadyConfig =
  requiredApprovals :: int

record RepositoryConfig =
  mergeReady :: "MergeReadyConfig option"
  pr_trustedReviewers :: "string list"

record PullsListRequest =
  list_owner :: string
  list_repo :: string
  list_state :: string
  list_sort :: string
  list_direction :: string
  per_page :: int

text \<open>What the handler does to the outside: its listing requests, the evaluations it starts, the failures it logs.\<close>

record handler_effects =
  list_requests :: "PullsListRequest list"
  evaluations :: "(PRRef \<times> string) list"
  logged_failures :: "(int \<times> string) list"

definition no_effects :: handler_effects where
  "no_effects = \<lparr>list_requests = [], evaluations = [], logged_failures = []\<rparr>"

definition prRefOf :: "Repository \<Rightarrow> PullRequest \<Rightarrow> PRRef" where
  "prRefOf rp pr = \<lparr>owner = owner_login rp, repo = name rp, prNumber = number pr\<rparr>"

text \<open>
  Modelled from the spec: steps 4 and 5 of the controller (the handler itself is not among
  the sources). One evaluation after the other, in the order of the list; a failure is
  logged with the number of the pull request and the full name of the repository, counted,
  and the loop goes on.
\<close>

fun evaluateEach ::
    "(PRRef \<Rightarrow> string \<Rightarrow> error option) \<Rightarrow> StatusPayload \<Rightarrow> PullRequest list
      \<Rightarrow> nat \<Rightarrow> handler_effects \<Rightarrow> nat \<times> handler_effects" where
  "evaluateEach evaluate payload [] failed eff = (failed, eff)"
| "evaluateEach evaluate payload (pr # rest) failed eff =
     (let r = prRefOf (repository payload) pr;
          eff1 = eff\<lparr>evaluations := evaluations eff @ [(r, sha payload)]\<rparr>
      in case evaluate r (sha payload) of
           None \<Rightarrow> evaluateEach evaluate payload rest failed eff1
         | Some e \<Rightarrow>
             evaluateEach evaluate payload rest (Suc failed)
               (eff1\<lparr>logged_failures := logged_failures eff1
                        @ [(number pr, full_name (repository payload))]\<rparr>))"

text \<open>
  Modelled from the spec: steps 1 to 3 and 6 of the controller (the handler itself is not
  among the sources). A missing merge-readiness policy ends the handler before any request;
  otherwise it lists the open pull requests, keeps those whose head commit is the commit of
  the event, evaluates them, and throws one summary error when some evaluations failed.
\<close>

definition handleStatus ::
    "RepositoryConfig \<Rightarrow> PullRequest list \<Rightarrow> (PRRef \<Rightarrow> string \<Rightarrow> error option)
      \<Rightarrow> StatusPayload \<Rightarrow> handler_effects \<Rightarrow> (error + unit) \<times> handler_effects" where
  "handleStatus repoConfig pulls evaluate payload eff =
     (case mergeReady repoConfig of
        None \<Rightarrow> (Inr (), eff)
      | Some policy \<Rightarrow>
          let request = \<lparr>list_owner = owner_login (repository payload),
                         list_repo = name (repository payload),
                         list_state = ''open'', list_sort = ''updated'',
                         list_direction = ''desc'', per_page = 100\<rparr>;
              eff1 = eff\<lparr>list_requests := list_requests eff @ [request]\<rparr>;
              matching = filter (\<lambda>pr. head_sha pr = sha payload) pulls;
              (failed, eff2) = evaluateEach evaluate payload matching 0 eff1
          in if failed > 0
             then (Inl (Error (numberToString (int failed)
                       @ '' PR(s) failed merge-readiness evaluation after status event'')), eff2)
             else (Inr (), eff2))"

text \<open>The fixtures of the handler's test.\<close>

definition hivemootRepository :: Repository where
  "hivemootRepository =
     \<lparr>owner_login = ''hivemoot'', name = ''hivemoot-bot'', full_name = ''hivemoot/hivemoot-bot''\<rparr>"

definition enabledConfig :: RepositoryConfig where
  "enabledConfig =
     \<lparr>mergeReady = Some \<lparr>requiredApprovals = 1\<rparr>, pr_trustedReviewers = [''hivemoot-builder'']\<rparr>"

definition disabledConfig :: RepositoryConfig where
  "disabledConfig = \<lparr>mergeReady = None, pr_trustedReviewers = []\<rparr>"

definition failsFor :: "int \<Rightarrow> PRRef \<Rightarrow> string \<Rightarrow> error option" where
  "failsFor n r s = (if prNumber r = n then Some (Error ''review API unavailable'') else None)"

section \<open>Theorems: file-change classifier\<close>

lemma matchesAny_iff: "matchesAny mm f ps \<longleftrightarrow> (\<exists>p \<in> set ps. mm f p)"
  by (induction ps) auto

text \<open>
  Claim C6. For every file name, allow list and deny list, \<open>isFileAllowed\<close> returns
  true exactly when no deny pattern matches the name and at least one allow pattern
  matches it. So a file matching both an allow and a deny pattern is rejected, an empty
  allow list allows no file, and an empty deny list denies none.
\<close>

theorem isFileAllowed_deny_first:
  "(isFileAllowed mm f allowed deny
      \<longleftrightarrow> (\<not> (\<exists>p \<in> set deny. mm f p) \<and> (\<exists>p \<in> set allowed. mm f p)))
   \<and> \<not> (isFileAllowed mm f allowed deny \<and> (\<exists>p \<in> set allowed. mm f p) \<and> (\<exists>p \<in> set deny. mm f p))
   \<and> \<not> isFileAllowed mm f [] deny
   \<and> (isFileAllowed mm f allowed [] \<longleftrightarrow> (\<exists>p \<in> set allowed. mm f p))"
  by (simp add: isFileAllowed_def matchesAny_iff)

theorem isFileAllowed_deny_first_witness:
  "isFileAllowed literal_match ''README.md'' [''README.md'', ''docs''] [''package.json'']
   \<and> \<not> isFileAllowed literal_match ''README.md'' [''README.md''] [''README.md'']"
  using isFileAllowed_deny_first [of literal_match "''README.md''" "[''README.md'', ''docs'']" "[''package.json'']"]
    isFileAllowed_deny_first [of literal_match "''README.md''" "[''README.md'']" "[''README.md'']"]
  by (simp add: literal_match_def)

lemma totalChangedLines_sum:
  "totalChangedLines files acc = acc + (\<Sum>f\<leftarrow>files. additions f + deletions f)"
  by (induction files arbitrary: acc) auto

lemma find_Some_holds: "find P xs = Some x \<Longrightarrow> x \<in> set xs \<and> P x"
  by (induction xs) (auto split: if_splits)

lemma checkPaths_find:
  "checkPaths mm cfg files =
     (case find (violatesPathRules mm cfg) files of
        Some f \<Rightarrow> \<lparr>eligible = False, reason = pathViolationReason mm cfg f\<rparr>
      | None \<Rightarrow> \<lparr>eligible = True, reason = ''all file checks passed''\<rparr>)"
  by (induction files)
     (auto simp: violatesPathRules_def pathViolationReason_def renamedFrom_def split: option.splits)

text \<open>
  Claim C1, amended. \<open>classifyFiles\<close> returns ineligible exactly when the list is empty,
  or it has more than \<open>maxFiles\<close> files, or the additions and deletions of all files sum
  to more than \<open>maxChangedLines\<close>, or some file violates the path rules: its name is not
  allowed, or it has a non-empty previous name that is not allowed. The reason is that of
  the first of these conditions that holds, in this order, and within the path rules that of
  the first violating file of the list, its own name before its previous name.
\<close>

theorem classifyFiles_first_violation:
  "(eligible (classifyFiles mm files cfg) = False
      \<longleftrightarrow> (files = []
           \<or> int (length files) > maxFiles cfg
           \<or> (\<Sum>f\<leftarrow>files. additions f + deletions f) > maxChangedLines cfg
           \<or> (\<exists>f \<in> set files. violatesPathRules mm cfg f)))
   \<and> classifyFiles mm files cfg =
       (if files = [] then \<lparr>eligible = False, reason = ''no files changed''\<rparr>
        else if int (length files) > maxFiles cfg
        then \<lparr>eligible = False,
              reason = ''too many files: '' @ numberToString (int (length files)) @ '' > ''
                       @ numberToString (maxFiles cfg)\<rparr>
        else if (\<Sum>f\<leftarrow>files. additions f + deletions f) > maxChangedLines cfg
        then \<lparr>eligible = False,
              reason = ''too many changed lines: ''
                       @ numberToString (\<Sum>f\<leftarrow>files. additions f + deletions f) @ '' > ''
                       @ numberToString (maxChangedLines cfg)\<rparr>
        else (case find (violatesPathRules mm cfg) files of
                Some f \<Rightarrow> \<lparr>eligible = False, reason = pathViolationReason mm cfg f\<rparr>
              | None \<Rightarrow> \<lparr>eligible = True, reason = ''all file checks passed''\<rparr>))"
proof -
  have shape: "classifyFiles mm files cfg =
       (if files = [] then \<lparr>eligible = False, reason = ''no files changed''\<rparr>
        else if int (length files) > maxFiles cfg
        then \<lparr>eligible = False,
              reason = ''too many files: '' @ numberToString (int (length files)) @ '' > ''
                       @ numberToString (maxFiles cfg)\<rparr>
        else if (\<Sum>f\<leftarrow>files. additions f + deletions f) > maxChangedLines cfg
        then \<lparr>eligible = False,
              reason = ''too many changed lines: ''
                       @ numberToString (\<Sum>f\<leftarrow>files. additions f + deletions f) @ '' > ''
                       @ numberToString (maxChangedLines cfg)\<rparr>
        else (case find (violatesPathRules mm cfg) files of
                Some f \<Rightarrow> \<lparr>eligible = False, reason = pathViolationReason mm cfg f\<rparr>
              | None \<Rightarrow> \<lparr>eligible = True, reason = ''all file checks passed''\<rparr>))"
    by (simp add: classifyFiles_def totalChangedLines_sum checkPaths_find Let_def)
  have "eligible (classifyFiles mm files cfg) = False
      \<longleftrightarrow> (files = []
           \<or> int (length files) > maxFiles cfg
           \<or> (\<Sum>f\<leftarrow>files. additions f + deletions f) > maxChangedLines cfg
           \<or> (\<exists>f \<in> set files. violatesPathRules mm cfg f))"
    unfolding shape
    by (auto simp: find_None_iff split: option.splits dest: find_Some_holds)
  with shape show ?thesis by blast
qed

theorem classifyFiles_first_violation_witness:
  "classifyFiles literal_match
       [\<lparr>filename = ''a.md'', additions = 20, deletions = 10, changes = 30,
          status = ''modified'', previous_filename = None\<rparr>,
        \<lparr>filename = ''src/index.ts'', additions = 30, deletions = 25, changes = 55,
          status = ''modified'', previous_filename = None\<rparr>]
       \<lparr>dryRun = True, allowedPaths = [''a.md''], denyPaths = [],
         maxFiles = 5, maxChangedLines = 80, minApprovals = 2, requireChecks = True\<rparr>
     = \<lparr>eligible = False, reason = ''too many changed lines: 85 > 80''\<rparr>
   \<and> classifyFiles literal_match
       [\<lparr>filename = ''a.md'', additions = 20, deletions = 10, changes = 30,
          status = ''modified'', previous_filename = None\<rparr>,
        \<lparr>filename = ''docs/new.md'', additions = 3, deletions = 2, changes = 5,
          status = ''renamed'', previous_filename = Some ''.github/ci.yml''\<rparr>,
        \<lparr>filename = ''src/index.ts'', additions = 3, deletions = 2, changes = 5,
          status = ''modified'', previous_filename = None\<rparr>]
       \<lparr>dryRun = True, allowedPaths = [''a.md'', ''docs/new.md''], denyPaths = [],
         maxFiles = 5, maxChangedLines = 80, minApprovals = 2, requireChecks = True\<rparr>
     = \<lparr>eligible = False,
        reason = ''file not allowed: .github/ci.yml (renamed to docs/new.md)''\<rparr>"
  using classifyFiles_first_violation [of literal_match
       "[\<lparr>filename = ''a.md'', additions = 20, deletions = 10, changes = 30,
          status = ''modified'', previous_filename = None\<rparr>,
        \<lparr>filename = ''src/index.ts'', additions = 30, deletions = 25, changes = 55,
          status = ''modified'', previous_filename = None\<rparr>]"
       "\<lparr>dryRun = True, allowedPaths = [''a.md''], denyPaths = [],
         maxFiles = 5, maxChangedLines = 80, minApprovals = 2, requireChecks = True\<rparr>"]
    classifyFiles_first_violation [of literal_match
       "[\<lparr>filename = ''a.md'', additions = 20, deletions = 10, changes = 30,
          status = ''modified'', previous_filename = None\<rparr>,
        \<lparr>filename = ''docs/new.md'', additions = 3, deletions = 2, changes = 5,
          status = ''renamed'', previous_filename = Some ''.github/ci.yml''\<rparr>,
        \<lparr>filename = ''src/index.ts'', additions = 3, deletions = 2, changes = 5,
          status = ''modified'', previous_filename = None\<rparr>]"
       "\<lparr>dryRun = True, allowedPaths = [''a.md'', ''docs/new.md''], denyPaths = [],
         maxFiles = 5, maxChangedLines = 80, minApprovals = 2, requireChecks = True\<rparr>"]
  by (simp add: numberToString_def violatesPathRules_def pathViolationReason_def
      renamedFrom_def isFileAllowed_def literal_match_def)

text \<open>
  A previous name that fails \<open>isFileAllowed\<close> does not always make the list
  ineligible. A renamed file whose previous name is the empty string passes: the empty
  string is falsy, so the loop does not look at it, although \<open>isFileAllowed\<close> rejects
  it.
\<close>

theorem classifyFiles_previous_filename_counterexample:
  "eligible (classifyFiles literal_match
       [\<lparr>filename = ''a.md'', additions = 1, deletions = 0, changes = 1,
          status = ''renamed'', previous_filename = Some ''''\<rparr>]
       \<lparr>dryRun = True, allowedPaths = [''a.md''], denyPaths = [],
         maxFiles = 5, maxChangedLines = 80, minApprovals = 2, requireChecks = True\<rparr>)
   \<and> \<not> isFileAllowed literal_match '''' [''a.md''] []"
  by (simp add: classifyFiles_def isFileAllowed_def literal_match_def)

section \<open>Theorems: transient-error classifier\<close>

text \<open>
  Claim C7, amended. On a value whose \<open>code\<close> and \<open>status\<close> can be read without a
  throw, \<open>isTransientError\<close> returns, and it returns true exactly for an object whose
  \<open>code\<close> is one of the six transport codes, or which carries a status that is 429 or at
  least 500. It returns false for null, for primitives, for the empty object and for an
  error without such a code whose status is another value between 400 and 499. On an
  object whose \<open>code\<close> getter throws, it throws the same error.
\<close>

theorem isTransientError_exact:
  "(\<not> throwingRead e ''code'' \<and> \<not> throwingRead e ''status'' \<longrightarrow>
      isTransientError e =
        Inr ((\<exists>props c. e = JObj props \<and> map_of props ''code'' = Some (Value (JStr c))
                \<and> c \<in> {''ECONNRESET'', ''ETIMEDOUT'', ''ECONNREFUSED'', ''ENOTFOUND'',
                        ''EAI_AGAIN'', ''EPIPE''})
             \<or> (\<exists>props s. e = JObj props \<and> map_of props ''status'' = Some (Value (JNum s))
                \<and> (s = 429 \<or> s \<ge> 500))))
   \<and> isTransientError JNull = Inr False
   \<and> isTransientError JUndefined = Inr False
   \<and> isTransientError (JBool b) = Inr False
   \<and> isTransientError (JNum n) = Inr False
   \<and> isTransientError (JStr str) = Inr False
   \<and> isTransientError (JObj []) = Inr False
   \<and> (map_of ps ''status'' = Some (Value (JNum k)) \<and> 400 \<le> k \<and> k < 500 \<and> k \<noteq> 429
        \<and> \<not> throwingRead (JObj ps) ''code''
        \<and> (\<forall>c. map_of ps ''code'' = Some (Value (JStr c)) \<longrightarrow> c \<notin> TRANSIENT_NETWORK_CODES)
        \<longrightarrow> isTransientError (JObj ps) = Inr False)
   \<and> (map_of qs ''code'' = Some (Throws x) \<longrightarrow> isTransientError (JObj qs) = Inl x)"
proof -
  have main: "\<not> throwingRead e ''code'' \<and> \<not> throwingRead e ''status'' \<longrightarrow>
      isTransientError e =
        Inr ((\<exists>props c. e = JObj props \<and> map_of props ''code'' = Some (Value (JStr c))
                \<and> c \<in> {''ECONNRESET'', ''ETIMEDOUT'', ''ECONNREFUSED'', ''ENOTFOUND'',
                        ''EAI_AGAIN'', ''EPIPE''})
             \<or> (\<exists>props s. e = JObj props \<and> map_of props ''status'' = Some (Value (JNum s))
                \<and> (s = 429 \<or> s \<ge> 500)))"
    by (cases e)
       (auto simp: isTransientError_def statusIsTransient_def throwingRead_def
             TRANSIENT_NETWORK_CODES_def
             split: option.splits jsval.splits property.splits)
  have rest: "isTransientError JNull = Inr False" "isTransientError JUndefined = Inr False"
    "isTransientError (JBool b) = Inr False" "isTransientError (JNum n) = Inr False"
    "isTransientError (JStr str) = Inr False" "isTransientError (JObj []) = Inr False"
    by (simp_all add: isTransientError_def statusIsTransient_def)
  have other_4xx: "map_of ps ''status'' = Some (Value (JNum k)) \<and> 400 \<le> k \<and> k < 500 \<and> k \<noteq> 429
        \<and> \<not> throwingRead (JObj ps) ''code''
        \<and> (\<forall>c. map_of ps ''code'' = Some (Value (JStr c)) \<longrightarrow> c \<notin> TRANSIENT_NETWORK_CODES)
        \<longrightarrow> isTransientError (JObj ps) = Inr False"
    by (auto simp: isTransientError_def statusIsTransient_def throwingRead_def
          split: option.splits jsval.splits property.splits)
  have throwing: "map_of qs ''code'' = Some (Throws x) \<longrightarrow> isTransientError (JObj qs) = Inl x"
    by (simp add: isTransientError_def)
  from main rest other_4xx throwing show ?thesis by blast
qed

theorem isTransientError_exact_witness:
  "isTransientError (JObj [(''code'', Value (JStr ''EUNKNOWN'')), (''status'', Value (JNum 404))])
     = Inr False
   \<and> isTransientError (JObj [(''status'', Value (JNum 503))]) = Inr True
   \<and> isTransientError (JObj [(''code'', Value (JNum 42))]) = Inr False
   \<and> isTransientError (JObj [(''code'', Throws (Error ''denied'')), (''status'', Value (JNum 503))])
     = Inl (Error ''denied'')"
  using isTransientError_exact
      [where ps = "[(''code'', Value (JStr ''EUNKNOWN'')), (''status'', Value (JNum 404))]"
         and k = 404]
    isTransientError_exact [where e = "JObj [(''status'', Value (JNum 503))]"]
    isTransientError_exact [where e = "JObj [(''code'', Value (JNum 42))]"]
    isTransientError_exact
      [where qs = "[(''code'', Throws (Error ''denied'')), (''status'', Value (JNum 503))]"
         and x = "Error ''denied''"]
  by (simp add: TRANSIENT_NETWORK_CODES_def throwingRead_def)

text \<open>
  The function can throw: the read of \<open>error.code\<close> is not guarded, so an object whose
  \<open>code\<close> is an accessor with a throwing getter makes it throw.
\<close>

theorem isTransientError_throwing_getter_counterexample:
  "isTransientError (JObj [(''code'', Throws (Error ''getter failed''))])
     = Inl (Error ''getter failed'')"
  by (simp add: isTransientError_def)

text \<open>
  Claim C10. An object whose \<open>code\<close> is one of the six transport codes is transient
  whatever \<open>status\<close> it carries; the status is looked at only when no such code matched.
\<close>

theorem isTransientError_code_wins:
  assumes "map_of props ''code'' = Some (Value (JStr c))"
    and "c \<in> {''ECONNRESET'', ''ETIMEDOUT'', ''ECONNREFUSED'', ''ENOTFOUND'', ''EAI_AGAIN'', ''EPIPE''}"
  shows "isTransientError (JObj props) = Inr True"
  using assms by (auto simp: isTransientError_def TRANSIENT_NETWORK_CODES_def)

theorem isTransientError_code_wins_witness:
  "isTransientError (JObj [(''code'', Value (JStr ''ECONNRESET'')), (''status'', Value (JNum 404))])
     = Inr True
   \<and> getErrorStatus (JObj [(''code'', Value (JStr ''ECONNRESET'')), (''status'', Value (JNum 404))])
     = Inr (Some 404)"
  using isTransientError_code_wins
    [of "[(''code'', Value (JStr ''ECONNRESET'')), (''status'', Value (JNum 404))]" "''ECONNRESET''"]
  by simp

section \<open>Theorems: approval aggregator\<close>

text \<open>
  Claim C5, amended. When the list of trusted reviewers has no repeated login, the
  trusted-approval count of \<open>evaluateAutomerge\<close> is the number of logins that are both
  approvers and trusted reviewers. In general it counts every entry of the list that is an
  approver, so it is never below that number.
\<close>

theorem trustedApprovalCount_intersection:
  "(distinct trusted \<longrightarrow> trustedApprovalCount trusted approvers = card (approvers \<inter> set trusted))
   \<and> card (approvers \<inter> set trusted) \<le> trustedApprovalCount trusted approvers"
proof -
  have eq: "{x \<in> set trusted. x \<in> approvers} = approvers \<inter> set trusted" by auto
  have "card (set (filter (\<lambda>r. r \<in> approvers) trusted)) \<le> length (filter (\<lambda>r. r \<in> approvers) trusted)"
    by (rule card_length)
  then have le: "card (approvers \<inter> set trusted) \<le> trustedApprovalCount trusted approvers"
    by (simp add: trustedApprovalCount_def eq)
  have "distinct trusted \<Longrightarrow> trustedApprovalCount trusted approvers = card (approvers \<inter> set trusted)"
  proof -
    assume "distinct trusted"
    then have "distinct (filter (\<lambda>r. r \<in> approvers) trusted)" by simp
    then have "card (set (filter (\<lambda>r. r \<in> approvers) trusted)) = length (filter (\<lambda>r. r \<in> approvers) trusted)"
      by (rule distinct_card)
    then show ?thesis by (simp add: trustedApprovalCount_def eq)
  qed
  with le show ?thesis by blast
qed

theorem trustedApprovalCount_intersection_witness:
  "distinct [''alice'', ''bob'']
   \<and> trustedApprovalCount [''alice'', ''bob''] {''alice'', ''charlie''} = 1
   \<and> card ({''alice'', ''charlie''} \<inter> set [''alice'', ''bob'']) = 1"
  using trustedApprovalCount_intersection [of "[''alice'', ''bob'']" "{''alice'', ''charlie''}"]
  by (simp add: trustedApprovalCount_def)

text \<open>With a login listed twice, one approval counts twice.\<close>

theorem trustedApprovalCount_repeated_counterexample:
  "trustedApprovalCount [''alice'', ''alice''] {''alice''} = 2
   \<and> card ({''alice''} \<inter> set [''alice'', ''alice'']) = 1"
  by (simp add: trustedApprovalCount_def)

section \<open>Theorems: label evaluator\<close>

lemmas io_defs = io_bind_def io_return_def perform_def getLabels_def listFiles_def
  getApproverLogins_def get_def getCheckRunsForRef_def getCombinedStatus_def addLabels_def
  removeLabel_def isCIPassing_def logInfo_def removeIfLabeled_def addIfMissing_def
  resolveHeadSha_def

lemmas fixture_defs = testParams_def readyRemote_def createMockPROperations_def baseRef_def
  literalConfig_def makeFile_def literal_match_def LABELS_AUTOMERGE_def

lemmas eval_defs = evaluateAutomerge_def io_defs fixture_defs classifyFiles_def isFileAllowed_def
     trustedApprovalCount_def checksPass_def numberToString_def Let_def new_calls_def

lemma run_trace:
  assumes "config params = Some cfg"
    and "evaluateAutomerge mm isLabelMatch params w = (res, w')"
  shows "\<forall>c \<in> set (butlast (new_calls w w')). \<not> is_mutation c \<and> faults w c = None"
    and "new_calls w w' \<noteq> [] \<and> faults w (last (new_calls w w')) = Some m
           \<longrightarrow> res = Inl (Error m)
               \<and> (\<not> is_mutation (last (new_calls w w')) \<longrightarrow> pr_labels w' = pr_labels w)"
  using assms
  by (auto simp: evaluateAutomerge_def io_defs new_calls_def Let_def
      split: option.splits if_splits sum.splits prod.splits)

text \<open>
  Claim C3. In an evaluation with a configuration, when a read of the remote (the labels,
  the files, the approvers, the head commit, the check runs or the combined status) throws,
  the evaluation throws the same error, has made no label mutation, and leaves the labels
  as they were. In every evaluation a label mutation can only be the last call made.
\<close>

theorem evaluateAutomerge_fetch_failure:
  assumes cfg: "config params = Some cfg"
    and run: "evaluateAutomerge mm isLabelMatch params w = (res, w')"
  shows "(\<forall>c \<in> set (new_calls w w'). \<not> is_mutation c \<and> faults w c = Some msg
            \<longrightarrow> res = Inl (Error msg)
                \<and> (\<forall>d \<in> set (new_calls w w'). \<not> is_mutation d)
                \<and> pr_labels w' = pr_labels w)
       \<and> (\<forall>c \<in> set (butlast (new_calls w w')). \<not> is_mutation c)"
proof -
  let ?tr = "new_calls w w'"
  note early = run_trace(1) [OF cfg run]
  note final = run_trace(2) [OF cfg run]
  have "res = Inl (Error msg) \<and> (\<forall>d \<in> set ?tr. \<not> is_mutation d) \<and> pr_labels w' = pr_labels w"
    if c: "c \<in> set ?tr" "\<not> is_mutation c" "faults w c = Some msg" for c
  proof -
    from c(1) have ne: "?tr \<noteq> []" by auto
    then have split: "?tr = butlast ?tr @ [last ?tr]" by simp
    have "c \<notin> set (butlast ?tr)" using early c(3) by auto
    with c(1) split have last: "last ?tr = c"
      by (metis Un_iff empty_iff empty_set set_ConsD set_append)
    with final [of msg] ne c have res: "res = Inl (Error msg)" "pr_labels w' = pr_labels w"
      by simp_all
    have "\<forall>d \<in> set ?tr. \<not> is_mutation d"
    proof
      fix d assume "d \<in> set ?tr"
      with split have "d \<in> set (butlast ?tr) \<or> d = last ?tr"
        by (metis Un_iff empty_iff empty_set set_ConsD set_append)
      with early last c(2) show "\<not> is_mutation d" by auto
    qed
    with res show ?thesis by simp
  qed
  with early show ?thesis by blast
qed

theorem evaluateAutomerge_fetch_failure_witness:
  "fst (evaluateAutomerge literal_match literal_match testParams
          (readyRemote\<lparr>faults := (faults readyRemote)(ListFiles baseRef 5 := Some ''API error'')\<rparr>))
     = Inl (Error ''API error'')
   \<and> new_calls (readyRemote\<lparr>faults := (faults readyRemote)(ListFiles baseRef 5 := Some ''API error'')\<rparr>)
        (snd (evaluateAutomerge literal_match literal_match testParams
          (readyRemote\<lparr>faults := (faults readyRemote)(ListFiles baseRef 5 := Some ''API error'')\<rparr>)))
     = [GetLabels baseRef, ListFiles baseRef 5]"
proof -
  let ?w = "readyRemote\<lparr>faults := (faults readyRemote)(ListFiles baseRef 5 := Some ''API error'')\<rparr>"
  let ?run = "evaluateAutomerge literal_match literal_match testParams ?w"
  have cfg: "config testParams = Some literalConfig" by (simp add: testParams_def)
  have run: "?run = (fst ?run, snd ?run)" by simp
  have tr: "new_calls ?w (snd ?run) = [GetLabels baseRef, ListFiles baseRef 5]"
    by (simp add: eval_defs)
  have fault: "faults ?w (ListFiles baseRef 5) = Some ''API error''" by simp
  from evaluateAutomerge_fetch_failure [OF cfg run, of "''API error''"] tr fault
  show ?thesis by simp
qed

text \<open>
  Claim C4. When the files of the pull request are classified ineligible, the evaluation
  calls neither \<open>getApproverLogins\<close> nor \<open>get\<close>, \<open>getCheckRunsForRef\<close> or
  \<open>getCombinedStatus\<close>. When the trusted-approval count is below \<open>minApprovals\<close>, it
  calls none of \<open>get\<close>, \<open>getCheckRunsForRef\<close> and \<open>getCombinedStatus\<close>.
\<close>

theorem evaluateAutomerge_short_circuit:
  assumes "config params = Some cfg"
    and "evaluateAutomerge mm isLabelMatch params w = (res, w')"
  shows "(\<not> eligible (classifyFiles mm (pr_files w (ref params)) cfg)
            \<longrightarrow> (\<forall>c \<in> set (new_calls w w'). \<not> is_approval_call c \<and> \<not> is_head_or_ci_call c))
       \<and> (int (trustedApprovalCount (trustedReviewers params) (pr_approvers w (ref params)))
              < minApprovals cfg
            \<longrightarrow> (\<forall>c \<in> set (new_calls w w'). \<not> is_head_or_ci_call c))"
  using assms
  by (auto simp: evaluateAutomerge_def io_defs new_calls_def Let_def
      split: option.splits if_splits sum.splits prod.splits)

theorem evaluateAutomerge_short_circuit_witness:
  "\<not> eligible (classifyFiles literal_match [makeFile ''src/main.ts'' 5 0] literalConfig)
   \<and> list_all (\<lambda>c. \<not> is_approval_call c \<and> \<not> is_head_or_ci_call c)
        (new_calls (readyRemote\<lparr>pr_files := (pr_files readyRemote)(baseRef := [makeFile ''src/main.ts'' 5 0])\<rparr>)
          (snd (evaluateAutomerge literal_match literal_match testParams
            (readyRemote\<lparr>pr_files := (pr_files readyRemote)(baseRef := [makeFile ''src/main.ts'' 5 0])\<rparr>))))
   \<and> int (trustedApprovalCount [''alice'', ''bob''] {''alice''}) < minApprovals literalConfig
   \<and> list_all (\<lambda>c. \<not> is_head_or_ci_call c)
        (new_calls (readyRemote\<lparr>pr_approvers := (pr_approvers readyRemote)(baseRef := {''alice''})\<rparr>)
          (snd (evaluateAutomerge literal_match literal_match testParams
            (readyRemote\<lparr>pr_approvers := (pr_approvers readyRemote)(baseRef := {''alice''})\<rparr>))))"
proof -
  let ?wf = "readyRemote\<lparr>pr_files := (pr_files readyRemote)(baseRef := [makeFile ''src/main.ts'' 5 0])\<rparr>"
  let ?wa = "readyRemote\<lparr>pr_approvers := (pr_approvers readyRemote)(baseRef := {''alice''})\<rparr>"
  let ?runf = "evaluateAutomerge literal_match literal_match testParams ?wf"
  let ?runa = "evaluateAutomerge literal_match literal_match testParams ?wa"
  have cfg: "config testParams = Some literalConfig" by (simp add: testParams_def)
  have runf: "?runf = (fst ?runf, snd ?runf)" and runa: "?runa = (fst ?runa, snd ?runa)" by simp_all
  have data: "pr_files ?wf (ref testParams) = [makeFile ''src/main.ts'' 5 0]"
    "trustedReviewers testParams = [''alice'', ''bob'']"
    "pr_approvers ?wa (ref testParams) = {''alice''}"
    by (simp_all add: testParams_def)
  have inelig: "\<not> eligible (classifyFiles literal_match [makeFile ''src/main.ts'' 5 0] literalConfig)"
    by (simp add: fixture_defs classifyFiles_def isFileAllowed_def)
  have few: "int (trustedApprovalCount [''alice'', ''bob''] {''alice''}) < minApprovals literalConfig"
    by (simp add: fixture_defs trustedApprovalCount_def)
  from evaluateAutomerge_short_circuit [OF cfg runf] evaluateAutomerge_short_circuit [OF cfg runa]
    inelig few data
  show ?thesis by (simp add: list_all_iff)
qed

lemma added_matches:
  "lm A A \<Longrightarrow> list_ex (\<lambda>l. lm l A) (ls @ filter (\<lambda>l. l \<notin> set ls) [A])"
  by (auto simp: list_ex_iff)

lemma removed_no_match:
  "\<forall>l \<in> set ls. lm l A \<longrightarrow> l = A \<Longrightarrow> \<not> list_ex (\<lambda>l. lm l A) (removeAll A ls)"
  by (auto simp: list_ex_iff)

lemma first_run_facts:
  assumes cfg: "config params = Some cfg"
    and run: "evaluateAutomerge mm lm params w = (Inr r1, w1)"
    and cur: "labelsCurrent params w"
  shows "fetchesSucceed mm cfg params w"
    and "pr_files w1 = pr_files w \<and> pr_approvers w1 = pr_approvers w \<and> pr_headSha w1 = pr_headSha w
         \<and> check_runs w1 = check_runs w \<and> combined_status w1 = combined_status w
         \<and> faults w1 = faults w"
    and "pr_labels w1 (ref params) =
           (if qualifies mm cfg params w
            then (if list_ex (\<lambda>l. lm l LABELS_AUTOMERGE) (pr_labels w (ref params))
                  then pr_labels w (ref params)
                  else pr_labels w (ref params)
                        @ filter (\<lambda>l. l \<notin> set (pr_labels w (ref params))) [LABELS_AUTOMERGE])
            else (if list_ex (\<lambda>l. lm l LABELS_AUTOMERGE) (pr_labels w (ref params))
                  then removeAll LABELS_AUTOMERGE (pr_labels w (ref params))
                  else pr_labels w (ref params)))"
    and "case r1 of
           Skipped why \<Rightarrow> False
         | Labeled \<Rightarrow> qualifies mm cfg params w
               \<and> \<not> list_ex (\<lambda>l. lm l LABELS_AUTOMERGE) (pr_labels w (ref params))
         | Unlabeled why \<Rightarrow> \<not> qualifies mm cfg params w
               \<and> list_ex (\<lambda>l. lm l LABELS_AUTOMERGE) (pr_labels w (ref params))
         | Noop b \<Rightarrow> b = qualifies mm cfg params w
               \<and> list_ex (\<lambda>l. lm l LABELS_AUTOMERGE) (pr_labels w (ref params)) = b"
  using assms
  by (auto simp: evaluateAutomerge_def io_defs Let_def labelsCurrent_def qualifies_def
      fetchesSucceed_def headShaUsed_def
      split: option.splits if_splits sum.splits prod.splits AutomergeResult.splits)

lemma settled_run:
  assumes cfg: "config params = Some cfg"
    and ok: "fetchesSucceed mm cfg params w"
    and cur: "labelsCurrent params w"
    and settled: "list_ex (\<lambda>l. lm l LABELS_AUTOMERGE) (pr_labels w (ref params))
                    = qualifies mm cfg params w"
  shows "fst (evaluateAutomerge mm lm params w) = Inr (Noop (qualifies mm cfg params w))
       \<and> (\<forall>c \<in> set (new_calls w (snd (evaluateAutomerge mm lm params w))). \<not> is_mutation c)
       \<and> pr_labels (snd (evaluateAutomerge mm lm params w)) = pr_labels w"
proof -
  let ?r = "ref params"
  let ?count = "int (trustedApprovalCount (trustedReviewers params) (pr_approvers w ?r))"
  have files_ok: "faults w (ListFiles ?r (maxFiles cfg)) = None"
    using ok by (simp add: fetchesSucceed_def)
  consider (inelig) "\<not> eligible (classifyFiles mm (pr_files w ?r) cfg)"
    | (approvals) "eligible (classifyFiles mm (pr_files w ?r) cfg)" "?count < minApprovals cfg"
    | (no_ci) "eligible (classifyFiles mm (pr_files w ?r) cfg)" "\<not> ?count < minApprovals cfg"
        "\<not> requireChecks cfg"
    | (with_ci) "eligible (classifyFiles mm (pr_files w ?r) cfg)" "\<not> ?count < minApprovals cfg"
        "requireChecks cfg"
    by blast
  then show ?thesis
  proof cases
    case inelig
    with cfg files_ok cur settled show ?thesis
      by (auto simp: evaluateAutomerge_def io_defs Let_def labelsCurrent_def qualifies_def
          new_calls_def split: option.splits)
  next
    case approvals
    with ok have "faults w (GetApproverLogins ?r) = None"
      by (simp add: fetchesSucceed_def)
    with approvals cfg files_ok cur settled show ?thesis
      by (auto simp: evaluateAutomerge_def io_defs Let_def labelsCurrent_def qualifies_def
          new_calls_def split: option.splits)
  next
    case no_ci
    with ok have "faults w (GetApproverLogins ?r) = None"
      by (simp add: fetchesSucceed_def)
    with no_ci cfg files_ok cur settled show ?thesis
      by (auto simp: evaluateAutomerge_def io_defs Let_def labelsCurrent_def qualifies_def
          new_calls_def split: option.splits)
  next
    case with_ci
    with ok have f: "faults w (GetApproverLogins ?r) = None"
      "headSha params = None \<or> headSha params = Some [] \<Longrightarrow> faults w (Get ?r) = None"
      "faults w (GetCheckRunsForRef (owner ?r) (repo ?r) (headShaUsed params w)) = None"
      "faults w (GetCombinedStatus (owner ?r) (repo ?r) (headShaUsed params w)) = None"
      by (simp_all add: fetchesSucceed_def)
    show ?thesis
    proof (cases "headSha params")
      case None
      with f with_ci cfg files_ok cur settled show ?thesis
        by (auto simp: evaluateAutomerge_def io_defs Let_def labelsCurrent_def qualifies_def
            new_calls_def headShaUsed_def split: option.splits)
    next
      case (Some s)
      with f with_ci cfg files_ok cur settled show ?thesis
        by (cases "s = []")
           (auto simp: evaluateAutomerge_def io_defs Let_def labelsCurrent_def qualifies_def
            new_calls_def headShaUsed_def split: option.splits)
    qed
  qed
qed

text \<open>
  Claim C2, amended. Take an evaluation with a configuration that returns, and a second
  evaluation of the same pull request right after it, with the files, approvers and CI
  results unchanged, both working with the labels the pull request carries at that moment
  (fetched, or handed in as they are), where the label store and \<open>isLabelMatch\<close> agree
  on the automerge label. The first evaluation returns labeled, unlabeled or noop. The
  second returns noop, its flag tells whether the pull request carries the label after the
  first evaluation, it makes no label mutation and leaves the labels as they are.
\<close>

theorem evaluateAutomerge_idempotent:
  assumes cfg: "config params = Some cfg"
    and first: "evaluateAutomerge mm lm params w = (Inr r1, w1)"
    and cur1: "labelsCurrent params w"
    and second: "params2 = params\<lparr>currentLabels := given\<rparr>"
    and cur2: "labelsCurrent params2 w1"
    and exact: "lm LABELS_AUTOMERGE LABELS_AUTOMERGE"
    and no_alias: "\<forall>l \<in> set (pr_labels w (ref params)). lm l LABELS_AUTOMERGE \<longrightarrow> l = LABELS_AUTOMERGE"
    and flag: "labeled2 = list_ex (\<lambda>l. lm l LABELS_AUTOMERGE) (pr_labels w1 (ref params))"
  shows "(case r1 of Skipped why \<Rightarrow> False | Labeled \<Rightarrow> labeled2 | Unlabeled why \<Rightarrow> \<not> labeled2
           | Noop b \<Rightarrow> labeled2 = b)
       \<and> fst (evaluateAutomerge mm lm params2 w1) = Inr (Noop labeled2)
       \<and> (\<forall>c \<in> set (new_calls w1 (snd (evaluateAutomerge mm lm params2 w1))). \<not> is_mutation c)
       \<and> pr_labels (snd (evaluateAutomerge mm lm params2 w1)) = pr_labels w1"
proof -
  note facts = first_run_facts [OF cfg first cur1]
  have frame: "pr_files w1 = pr_files w" "pr_approvers w1 = pr_approvers w"
    "pr_headSha w1 = pr_headSha w" "check_runs w1 = check_runs w"
    "combined_status w1 = combined_status w" "faults w1 = faults w"
    using facts(2) by simp_all
  have cfg2: "config params2 = Some cfg" and ref2: "ref params2 = ref params"
    using cfg second by simp_all
  have sha: "headShaUsed params2 w1 = headShaUsed params w"
    using second frame by (simp add: headShaUsed_def split: option.splits)
  have q: "qualifies mm cfg params2 w1 = qualifies mm cfg params w"
    using second frame sha by (simp add: qualifies_def)
  have ok2: "fetchesSucceed mm cfg params2 w1"
    using facts(1) second frame sha by (simp add: fetchesSucceed_def)
  have settled: "list_ex (\<lambda>l. lm l LABELS_AUTOMERGE) (pr_labels w1 (ref params))
                   = qualifies mm cfg params w"
    using facts(3) exact
      added_matches [of lm LABELS_AUTOMERGE "pr_labels w (ref params)"]
      removed_no_match [of "pr_labels w (ref params)" lm LABELS_AUTOMERGE] no_alias
    by (simp split: if_splits)
  have r1: "case r1 of Skipped why \<Rightarrow> False | Labeled \<Rightarrow> labeled2 | Unlabeled why \<Rightarrow> \<not> labeled2
           | Noop b \<Rightarrow> labeled2 = b"
    using facts(4) settled flag by (auto split: AutomergeResult.splits)
  from settled_run [OF cfg2 ok2 cur2, of lm] settled q ref2 flag r1
  show ?thesis by simp
qed

theorem evaluateAutomerge_idempotent_witness:
  "fst (evaluateAutomerge literal_match literal_match testParams readyRemote) = Inr Labeled
   \<and> fst (evaluateAutomerge literal_match literal_match testParams
            (snd (evaluateAutomerge literal_match literal_match testParams readyRemote)))
       = Inr (Noop True)
   \<and> pr_labels (snd (evaluateAutomerge literal_match literal_match testParams
            (snd (evaluateAutomerge literal_match literal_match testParams readyRemote)))) baseRef
       = [''hivemoot:automerge'']"
proof -
  let ?w1 = "snd (evaluateAutomerge literal_match literal_match testParams readyRemote)"
  have fst1: "fst (evaluateAutomerge literal_match literal_match testParams readyRemote) = Inr Labeled"
    by (simp add: eval_defs)
  then have first: "evaluateAutomerge literal_match literal_match testParams readyRemote = (Inr Labeled, ?w1)"
    by (simp add: prod_eq_iff)
  have w1: "pr_labels ?w1 baseRef = [''hivemoot:automerge'']" "faults ?w1 (GetLabels baseRef) = None"
    by (simp_all add: eval_defs)
  have cfg: "config testParams = Some literalConfig" by (simp add: testParams_def)
  have cur1: "labelsCurrent testParams readyRemote" by (simp add: labelsCurrent_def fixture_defs)
  have second: "testParams = testParams\<lparr>currentLabels := None\<rparr>" by (simp add: testParams_def)
  have cur2: "labelsCurrent testParams ?w1"
    using w1 by (simp add: labelsCurrent_def testParams_def)
  have exact: "literal_match LABELS_AUTOMERGE LABELS_AUTOMERGE" by (simp add: literal_match_def)
  have no_alias: "\<forall>l \<in> set (pr_labels readyRemote (ref testParams)).
      literal_match l LABELS_AUTOMERGE \<longrightarrow> l = LABELS_AUTOMERGE"
    by (simp add: fixture_defs)
  have flag: "True = list_ex (\<lambda>l. literal_match l LABELS_AUTOMERGE) (pr_labels ?w1 (ref testParams))"
    using w1 by (simp add: testParams_def literal_match_def LABELS_AUTOMERGE_def)
  from evaluateAutomerge_idempotent [OF cfg first cur1 second cur2 exact no_alias flag] fst1 w1
  show ?thesis by simp
qed

text \<open>
  Labels handed in by the caller are used as they are. Two evaluations in a row that are
  both handed the labels from before the first one both add the label and both return
  labeled.
\<close>

theorem evaluateAutomerge_stale_labels_counterexample:
  "fst (evaluateAutomerge literal_match literal_match (testParams\<lparr>currentLabels := Some []\<rparr>)
          readyRemote) = Inr Labeled
   \<and> fst (evaluateAutomerge literal_match literal_match (testParams\<lparr>currentLabels := Some []\<rparr>)
          (snd (evaluateAutomerge literal_match literal_match
                  (testParams\<lparr>currentLabels := Some []\<rparr>) readyRemote))) = Inr Labeled
   \<and> new_calls
         (snd (evaluateAutomerge literal_match literal_match
                  (testParams\<lparr>currentLabels := Some []\<rparr>) readyRemote))
         (snd (evaluateAutomerge literal_match literal_match (testParams\<lparr>currentLabels := Some []\<rparr>)
          (snd (evaluateAutomerge literal_match literal_match
                  (testParams\<lparr>currentLabels := Some []\<rparr>) readyRemote))))
       = [ListFiles baseRef 5, GetApproverLogins baseRef,
          GetCheckRunsForRef ''org'' ''repo'' ''sha123'', GetCombinedStatus ''org'' ''repo'' ''sha123'',
          AddLabels baseRef [''hivemoot:automerge'']]"
  by (simp add: eval_defs)

section \<open>Theorems: status-event fan-out controller\<close>

lemma evaluateEach_effects:
  "evaluateEach ev payload prs failed eff =
     (failed + length (filter (\<lambda>pr. ev (prRefOf (repository payload) pr) (sha payload) \<noteq> None) prs),
      eff\<lparr>evaluations := evaluations eff
             @ map (\<lambda>pr. (prRefOf (repository payload) pr, sha payload)) prs,
          logged_failures := logged_failures eff
             @ map (\<lambda>pr. (number pr, full_name (repository payload)))
                 (filter (\<lambda>pr. ev (prRefOf (repository payload) pr) (sha payload) \<noteq> None) prs)\<rparr>)"
  by (induction prs arbitrary: failed eff) (auto simp: Let_def)

text \<open>
  Claim C8, amended. When the merge-readiness policy is enabled, the handler of a status
  event with commit \<open>s\<close> asks once for the open pull requests (state open, sorted by
  update time, newest first, 100 per page) and evaluates merge-readiness once for each listed pull request whose
  head commit is \<open>s\<close>, with the reference of that pull request and \<open>s\<close> as head commit,
  in the order of the listing; it evaluates no other pull request.
\<close>

theorem handleStatus_matching_only:
  assumes "mergeReady repoConfig = Some policy"
  shows "list_requests (snd (handleStatus repoConfig pulls ev payload eff))
           = list_requests eff
             @ [\<lparr>list_owner = owner_login (repository payload),
                  list_repo = name (repository payload),
                  list_state = ''open'', list_sort = ''updated'',
                  list_direction = ''desc'', per_page = 100\<rparr>]
       \<and> evaluations (snd (handleStatus repoConfig pulls ev payload eff))
           = evaluations eff
             @ map (\<lambda>pr. (prRefOf (repository payload) pr, sha payload))
                 (filter (\<lambda>pr. head_sha pr = sha payload) pulls)"
  using assms by (simp add: handleStatus_def evaluateEach_effects Let_def)

theorem handleStatus_matching_only_witness:
  "evaluations (snd (handleStatus enabledConfig
       [\<lparr>number = 11, head_sha = ''abc123''\<rparr>, \<lparr>number = 12, head_sha = ''def456''\<rparr>,
        \<lparr>number = 13, head_sha = ''abc123''\<rparr>]
       (failsFor 13) \<lparr>sha = ''abc123'', repository = hivemootRepository\<rparr> no_effects))
     = [(\<lparr>owner = ''hivemoot'', repo = ''hivemoot-bot'', prNumber = 11\<rparr>, ''abc123''),
        (\<lparr>owner = ''hivemoot'', repo = ''hivemoot-bot'', prNumber = 13\<rparr>, ''abc123'')]"
  using handleStatus_matching_only [where repoConfig = enabledConfig
       and policy = "\<lparr>requiredApprovals = 1\<rparr>"
       and pulls = "[\<lparr>number = 11, head_sha = ''abc123''\<rparr>, \<lparr>number = 12, head_sha = ''def456''\<rparr>,
        \<lparr>number = 13, head_sha = ''abc123''\<rparr>]"
       and ev = "failsFor 13" and payload = "\<lparr>sha = ''abc123'', repository = hivemootRepository\<rparr>"
       and eff = no_effects]
  by (simp add: enabledConfig_def no_effects_def prRefOf_def hivemootRepository_def)

text \<open>With the policy disabled the handler neither lists nor evaluates, whatever the open pull requests are.\<close>

theorem handleStatus_disabled_counterexample:
  "list_requests (snd (handleStatus disabledConfig [\<lparr>number = 11, head_sha = ''abc123''\<rparr>]
       (failsFor 13) \<lparr>sha = ''abc123'', repository = hivemootRepository\<rparr> no_effects)) = []
   \<and> evaluations (snd (handleStatus disabledConfig [\<lparr>number = 11, head_sha = ''abc123''\<rparr>]
       (failsFor 13) \<lparr>sha = ''abc123'', repository = hivemootRepository\<rparr> no_effects)) = []"
  by (simp add: handleStatus_def disabledConfig_def no_effects_def)

text \<open>
  Claim C9. When the handler evaluates the matching pull requests, every one of them is
  evaluated whether or not others fail; each failure is logged with the number of the pull
  request and the full name of the repository; at the end, if some evaluations failed the
  handler throws one error whose message gives their number, and otherwise it returns.
\<close>

theorem handleStatus_aggregates_failures:
  assumes "mergeReady repoConfig = Some policy"
    and "matching = filter (\<lambda>pr. head_sha pr = sha payload) pulls"
    and "failing = filter (\<lambda>pr. ev (prRefOf (repository payload) pr) (sha payload) \<noteq> None) matching"
  shows "evaluations (snd (handleStatus repoConfig pulls ev payload eff))
           = evaluations eff @ map (\<lambda>pr. (prRefOf (repository payload) pr, sha payload)) matching
       \<and> logged_failures (snd (handleStatus repoConfig pulls ev payload eff))
           = logged_failures eff @ map (\<lambda>pr. (number pr, full_name (repository payload))) failing
       \<and> fst (handleStatus repoConfig pulls ev payload eff)
           = (if failing = [] then Inr ()
              else Inl (Error (numberToString (int (length failing))
                     @ '' PR(s) failed merge-readiness evaluation after status event'')))"
  using assms by (simp add: handleStatus_def evaluateEach_effects Let_def)

theorem handleStatus_aggregates_failures_witness:
  "fst (handleStatus enabledConfig
       [\<lparr>number = 11, head_sha = ''abc123''\<rparr>, \<lparr>number = 13, head_sha = ''abc123''\<rparr>,
        \<lparr>number = 14, head_sha = ''abc123''\<rparr>]
       (failsFor 13) \<lparr>sha = ''abc123'', repository = hivemootRepository\<rparr> no_effects)
     = Inl (Error ''1 PR(s) failed merge-readiness evaluation after status event'')
   \<and> logged_failures (snd (handleStatus enabledConfig
       [\<lparr>number = 11, head_sha = ''abc123''\<rparr>, \<lparr>number = 13, head_sha = ''abc123''\<rparr>,
        \<lparr>number = 14, head_sha = ''abc123''\<rparr>]
       (failsFor 13) \<lparr>sha = ''abc123'', repository = hivemootRepository\<rparr> no_effects))
     = [(13, ''hivemoot/hivemoot-bot'')]
   \<and> map (\<lambda>e. prNumber (fst e)) (evaluations (snd (handleStatus enabledConfig
       [\<lparr>number = 11, head_sha = ''abc123''\<rparr>, \<lparr>number = 13, head_sha = ''abc123''\<rparr>,
        \<lparr>number = 14, head_sha = ''abc123''\<rparr>]
       (failsFor 13) \<lparr>sha = ''abc123'', repository = hivemootRepository\<rparr> no_effects)))
     = [11, 13, 14]"
  using handleStatus_aggregates_failures [where repoConfig = enabledConfig
       and policy = "\<lparr>requiredApprovals = 1\<rparr>"
       and pulls = "[\<lparr>number = 11, head_sha = ''abc123''\<rparr>, \<lparr>number = 13, head_sha = ''abc123''\<rparr>,
        \<lparr>number = 14, head_sha = ''abc123''\<rparr>]"
       and payload = "\<lparr>sha = ''abc123'', repository = hivemootRepository\<rparr>"
       and matching = "[\<lparr>number = 11, head_sha = ''abc123''\<rparr>, \<lparr>number = 13, head_sha = ''abc123''\<rparr>,
        \<lparr>number = 14, head_sha = ''abc123''\<rparr>]"
       and failing = "[\<lparr>number = 13, head_sha = ''abc123''\<rparr>]"
       and ev = "failsFor 13" and eff = no_effects]
  by (simp add: enabledConfig_def no_effects_def prRefOf_def hivemootRepository_def
      failsFor_def numberToString_def)

end
